theory Spec2Isabelle
  imports Main
begin

section \<open>Strings of the program\<close>

text \<open>
  A JavaScript string is a sequence of UTF-16 code units. The model's \<open>string\<close> holds the
  code units below 256 (ASCII and Latin-1), one \<open>char\<close> each; on such text \<open>length\<close>,
  \<open>substring\<close>, \<open>includes\<close> and \<open>trim\<close> are exactly the source's. The fixed Korean and emoji
  literals of the source lie outside that range. They are only ever concatenated into
  messages, and are spelled here by their UTF-8 bytes (all at or above 0x80, so that no
  ASCII search of the source can hit them).
\<close>

definition isWhiteSpace :: "char \<Rightarrow> bool" where
  \<comment> \<open>the white space and line terminators of ECMAScript below code unit 256\<close>
  "isWhiteSpace c = (c \<in> set [CHR 0x09, CHR 0x0A, CHR 0x0B, CHR 0x0C, CHR 0x0D, CHR 0x20, CHR 0xA0])"

definition trim :: "string \<Rightarrow> string" where
  \<comment> \<open>\<open>String.prototype.trim\<close>\<close>
  "trim s = rev (dropWhile isWhiteSpace (rev (dropWhile isWhiteSpace s)))"

definition substring0 :: "nat \<Rightarrow> string \<Rightarrow> string" where
  \<comment> \<open>\<open>s.substring(0, n)\<close>\<close>
  "substring0 n s = take n s"

definition startsWith :: "string \<Rightarrow> string \<Rightarrow> bool" where
  "startsWith s p = (take (length p) s = p)"

fun includes_str :: "string \<Rightarrow> string \<Rightarrow> bool" where
  \<comment> \<open>\<open>s.includes(sub)\<close>: \<open>sub\<close> occurs at some position of \<open>s\<close>\<close>
  "includes_str [] sub = (sub = [])"
| "includes_str (c # cs) sub = (startsWith (c # cs) sub \<or> includes_str cs sub)"

definition digitChar :: "nat \<Rightarrow> char" where
  "digitChar d = ''0123456789abcdef'' ! (d mod 16)"

definition isDigit :: "char \<Rightarrow> bool" where
  \<comment> \<open>the class \<open>\d\<close> of a regular expression\<close>
  "isDigit c = (c \<in> set ''0123456789'')"

fun Nat_toString :: "nat \<Rightarrow> string" where
  \<comment> \<open>the decimal rendering of a non-negative integer, as \<open>Number.prototype.toString\<close>
      gives it for integers below \<open>10^21\<close>\<close>
  "Nat_toString n =
     (if n < 10 then [digitChar n] else Nat_toString (n div 10) @ [digitChar (n mod 10)])"

declare Nat_toString.simps [simp del]

definition Int_toString :: "int \<Rightarrow> string" where
  "Int_toString i = (if i < 0 then CHR ''-'' # Nat_toString (nat (- i)) else Nat_toString (nat i))"

section \<open>JSON values\<close>

text \<open>
  A JSON value, as \<open>JSON.parse\<close> and \<open>Response.json\<close> produce it and as \<open>JSON.stringify\<close>
  reads it. A number is a JavaScript number; the type is left abstract, and what the
  platform writes for a number and whether a number is truthy are functions of the
  platform below. An object is given by its members in the order in which they are
  created: the order of the JSON text that is parsed, or of the object literal that is
  evaluated. A member whose key was created before replaces the value and keeps the
  earlier place.
\<close>

typedecl jsnumber

datatype json =
    JNull
  | JBool bool
  | JNum jsnumber
  | JStr string
  | JArr "json list"
  | JObj "(string \<times> json) list"

text \<open>
  The own properties of an object in the order in which JavaScript enumerates them
  (\<open>OrdinaryOwnPropertyKeys\<close>): the keys that are array indices (the decimal text of an
  integer from 0 to \<open>2^32 - 2\<close>, without leading zeros) in ascending order, then the other
  keys in the order of their creation.
\<close>

definition digitsValue :: "string \<Rightarrow> nat" where
  "digitsValue s = foldl (\<lambda>n c. 10 * n + (of_char c - 48)) 0 s"

definition arrayIndex :: "string \<Rightarrow> nat option" where
  "arrayIndex k =
     (if k \<noteq> [] \<and> list_all isDigit k \<and> (k = ''0'' \<or> hd k \<noteq> CHR ''0'')
         \<and> digitsValue k \<le> 4294967294
      then Some (digitsValue k) else None)"

fun created :: "(string \<times> 'a) list \<Rightarrow> (string \<times> 'a) list" where
  \<comment> \<open>one property for each key, at the place of its first member, with the value of
      its last member\<close>
  "created [] = []"
| "created ((k, v) # kvs) =
     (k, (case map_of (rev kvs) k of None \<Rightarrow> v | Some w \<Rightarrow> w))
       # created (filter (\<lambda>kv. fst kv \<noteq> k) kvs)"

definition ownProperties :: "(string \<times> 'a) list \<Rightarrow> (string \<times> 'a) list" where
  "ownProperties kvs =
     (let ps = created kvs
      in map snd (sort_key fst
           (List.map_filter (\<lambda>kv. map_option (\<lambda>n. (n, kv)) (arrayIndex (fst kv))) ps))
         @ filter (\<lambda>kv. arrayIndex (fst kv) = None) ps)"

fun jsValue :: "json \<Rightarrow> json" where
  \<comment> \<open>the value with the properties of every object in enumeration order\<close>
  "jsValue (JArr xs) = JArr (map jsValue xs)"
| "jsValue (JObj kvs) = JObj (ownProperties (map (\<lambda>(k, v). (k, jsValue v)) kvs))"
| "jsValue JNull = JNull"
| "jsValue (JBool b) = JBool b"
| "jsValue (JNum n) = JNum n"
| "jsValue (JStr s) = JStr s"

section \<open>The text that \<open>JSON.stringify\<close> writes\<close>

definition escapeChar :: "char \<Rightarrow> string" where
  \<comment> \<open>\<open>QuoteJSONString\<close>: the quotation mark, the backslash and the control characters
      are escaped, everything else is copied\<close>
  "escapeChar c =
     (if c = CHR 0x22 then [CHR 0x5C, CHR 0x22]
      else if c = CHR 0x5C then [CHR 0x5C, CHR 0x5C]
      else if c = CHR 0x08 then [CHR 0x5C, CHR ''b'']
      else if c = CHR 0x09 then [CHR 0x5C, CHR ''t'']
      else if c = CHR 0x0A then [CHR 0x5C, CHR ''n'']
      else if c = CHR 0x0C then [CHR 0x5C, CHR ''f'']
      else if c = CHR 0x0D then [CHR 0x5C, CHR ''r'']
      else if (of_char c :: nat) < 32
        then [CHR 0x5C, CHR ''u'', CHR ''0'', CHR ''0'',
              digitChar (of_char c div 16), digitChar (of_char c mod 16)]
      else [c])"

definition quoteJSONString :: "string \<Rightarrow> string" where
  "quoteJSONString s = CHR 0x22 # concat (map escapeChar s) @ [CHR 0x22]"

fun joinComma :: "string list \<Rightarrow> string" where
  "joinComma [] = []"
| "joinComma [x] = x"
| "joinComma (x # y # ys) = x @ CHR '','' # joinComma (y # ys)"

fun JSON_write :: "(jsnumber \<Rightarrow> string) \<Rightarrow> json \<Rightarrow> string" where
  \<comment> \<open>the members of an object are written in the order of the list; \<open>num\<close> is what is
      written for a number\<close>
  "JSON_write num JNull = ''null''"
| "JSON_write num (JBool b) = (if b then ''true'' else ''false'')"
| "JSON_write num (JNum n) = num n"
| "JSON_write num (JStr s) = quoteJSONString s"
| "JSON_write num (JArr xs) = CHR ''['' # joinComma (map (JSON_write num) xs) @ '']''"
| "JSON_write num (JObj kvs) =
     CHR ''{'' # joinComma (map (\<lambda>(k, v). quoteJSONString k @ CHR '':'' # JSON_write num v) kvs) @ ''}''"

section \<open>The JavaScript platform\<close>

text \<open>
  A \<open>Date\<close> is its time value in milliseconds since the epoch, or the invalid date
  (time value NaN) that \<open>new Date(s)\<close> gives for an unreadable \<open>s\<close>.
\<close>

datatype jsdate = ValidDate int | InvalidDate

text \<open>
  The functions of the platform that the component relies on and that are not given a
  definition here: \<open>JSON.parse\<close> (\<open>None\<close> when it throws), what \<open>JSON.stringify\<close> writes for
  a number (\<open>Number::toString\<close> of a finite number, \<open>null\<close> for the others), \<open>ToBoolean\<close> of
  a number, \<open>Date.prototype.toISOString\<close> and \<open>new Date(string)\<close>.
\<close>

record platform =
  JSON_parse :: "string \<Rightarrow> json option"
  Number_toJSON :: "jsnumber \<Rightarrow> string"
  Number_toBoolean :: "jsnumber \<Rightarrow> bool"
  toISOString :: "int \<Rightarrow> string"
  Date_parse :: "string \<Rightarrow> jsdate"

definition JSON_stringify :: "platform \<Rightarrow> json \<Rightarrow> string" where
  \<comment> \<open>\<open>JSON.stringify(v)\<close> for a JSON value \<open>v\<close>\<close>
  "JSON_stringify P v = JSON_write (Number_toJSON P) (jsValue v)"

definition restOk :: "string \<Rightarrow> bool" where
  \<comment> \<open>the text is empty or begins with a character that is not a digit\<close>
  "restOk r = (case r of [] \<Rightarrow> True | c # cs \<Rightarrow> \<not> isDigit c)"

section \<open>Cards and the component state\<close>

text \<open>
  The interface \<open>SwaggerCard\<close>. The field \<open>id\<close> is \<open>card_id\<close> here; \<open>response\<close> is a JSON
  value, \<open>JNull\<close> for \<open>null\<close>; an optional or nullable string is \<open>None\<close> when it is
  \<open>undefined\<close> or \<open>null\<close>.
\<close>

record SwaggerCard =
  card_id :: string
  name :: string
  url :: string
  swaggerUrl :: "string option"
  autoRefresh :: bool
  loading :: bool
  response :: json
  error :: "string option"
  lastUpdated :: "jsdate option"

text \<open>
  The state of the component \<open>SwaggerView\<close> that the handlers below read or write, and
  the \<open>localStorage\<close> of the origin. A \<open>Set<string>\<close> is the list of its elements in
  insertion order.
\<close>

record state =
  cards :: "SwaggerCard list"
  changedCardIds :: "string list"
  newCardName :: string
  newCardUrl :: string
  newCardSwaggerUrl :: string
  showAddForm :: bool
  editingCardId :: "string option"
  editCardName :: string
  editCardUrl :: string
  editCardSwaggerUrl :: string
  localStorage :: "string \<rightharpoonup> string"

definition Set_add :: "string \<Rightarrow> string list \<Rightarrow> string list" where
  "Set_add x xs = (if x \<in> set xs then xs else xs @ [x])"

definition Set_delete :: "string \<Rightarrow> string list \<Rightarrow> string list" where
  "Set_delete x xs = filter (\<lambda>y. y \<noteq> x) xs"

definition STORAGE_KEY :: string where
  "STORAGE_KEY = ''swagger-cards''"

definition CHANGED_CARD_IDS_KEY :: string where
  "CHANGED_CARD_IDS_KEY = ''swagger-changed-card-ids''"

section \<open>The persistent store\<close>

text \<open>
  What \<open>JSON.stringify\<close> sees of a card: the properties in the order the object literals
  of the source create them, \<open>swaggerUrl\<close> left out when it is \<open>undefined\<close>, and a date
  replaced by its \<open>toJSON\<close> (the ISO string, \<open>null\<close> for an invalid date).
\<close>

definition card_toJSON :: "platform \<Rightarrow> SwaggerCard \<Rightarrow> json" where
  "card_toJSON P c = JObj (
     [(''id'', JStr (card_id c)), (''name'', JStr (name c)), (''url'', JStr (url c))]
     @ (case swaggerUrl c of None \<Rightarrow> [] | Some u \<Rightarrow> [(''swaggerUrl'', JStr u)])
     @ [(''autoRefresh'', JBool (autoRefresh c)),
        (''loading'', JBool (loading c)),
        (''response'', response c),
        (''error'', case error c of None \<Rightarrow> JNull | Some e \<Rightarrow> JStr e),
        (''lastUpdated'', case lastUpdated c of
                            None \<Rightarrow> JNull
                          | Some InvalidDate \<Rightarrow> JNull
                          | Some (ValidDate t) \<Rightarrow> JStr (toISOString P t))])"

definition serializeCards :: "platform \<Rightarrow> SwaggerCard list \<Rightarrow> string" where
  \<comment> \<open>\<open>JSON.stringify(cards)\<close>\<close>
  "serializeCards P cs = JSON_stringify P (JArr (map (card_toJSON P) cs))"

definition saveCards :: "platform \<Rightarrow> state \<Rightarrow> state" where
  \<comment> \<open>the effect on \<open>[cards]\<close>: \<open>localStorage.setItem(STORAGE_KEY, JSON.stringify(cards))\<close>
      (a write that the store refuses is caught and logged by the source; the model's
      store accepts every write)\<close>
  "saveCards P s = s\<lparr>localStorage := (localStorage s)(STORAGE_KEY \<mapsto> serializeCards P (cards s))\<rparr>"

definition saveChangedCardIds :: "platform \<Rightarrow> state \<Rightarrow> state" where
  \<comment> \<open>the effect on \<open>[changedCardIds]\<close>\<close>
  "saveChangedCardIds P s =
     s\<lparr>localStorage := (localStorage s)(CHANGED_CARD_IDS_KEY \<mapsto>
          JSON_stringify P (JArr (map JStr (changedCardIds s))))\<rparr>"

text \<open>
  Reading a property of a parsed value: \<open>None\<close> is \<open>undefined\<close>, and the value of a key is
  that of its last member. The properties read below (\<open>id\<close>, \<open>name\<close>, ...) exist on objects
  only. \<open>truthy\<close> is JavaScript's \<open>ToBoolean\<close>.
\<close>

definition getProp :: "json \<Rightarrow> string \<Rightarrow> json option" where
  "getProp j k = (case j of JObj kvs \<Rightarrow> map_of (rev kvs) k | _ \<Rightarrow> None)"

definition truthy :: "platform \<Rightarrow> json option \<Rightarrow> bool" where
  "truthy P v = (case v of
      None \<Rightarrow> False
    | Some JNull \<Rightarrow> False
    | Some (JBool b) \<Rightarrow> b
    | Some (JNum n) \<Rightarrow> Number_toBoolean P n
    | Some (JStr s) \<Rightarrow> s \<noteq> []
    | Some (JArr xs) \<Rightarrow> True
    | Some (JObj kvs) \<Rightarrow> True)"

text \<open>
  The field expressions of \<open>loadCardsFromStorage\<close>. The source casts the parsed value to
  \<open>SwaggerCard\<close> without a check; where a stored field holds a value that is not of the
  field's declared type, the restored card is not a \<open>SwaggerCard\<close> and the functions here
  return \<open>None\<close>.
\<close>

definition asString :: "json option \<Rightarrow> string option" where
  \<comment> \<open>\<open>card.id\<close>, \<open>card.name\<close>, \<open>card.url\<close>\<close>
  "asString v = (case v of Some (JStr s) \<Rightarrow> Some s | _ \<Rightarrow> None)"

definition stringOrAbsent :: "platform \<Rightarrow> json option \<Rightarrow> string option option" where
  \<comment> \<open>\<open>card.swaggerUrl || undefined\<close>, \<open>card.error || null\<close>\<close>
  "stringOrAbsent P v =
     (if \<not> truthy P v then Some None
      else case v of Some (JStr s) \<Rightarrow> Some (Some s) | _ \<Rightarrow> None)"

definition boolOrFalse :: "json option \<Rightarrow> bool option" where
  \<comment> \<open>\<open>card.autoRefresh ?? false\<close>\<close>
  "boolOrFalse v = (case v of
      None \<Rightarrow> Some False
    | Some JNull \<Rightarrow> Some False
    | Some (JBool b) \<Rightarrow> Some b
    | _ \<Rightarrow> None)"

definition responseOrNull :: "platform \<Rightarrow> json option \<Rightarrow> json" where
  \<comment> \<open>\<open>card.response || null\<close>\<close>
  "responseOrNull P v = (if truthy P v then (case v of Some j \<Rightarrow> j | None \<Rightarrow> JNull) else JNull)"

definition dateOrNull :: "platform \<Rightarrow> json option \<Rightarrow> jsdate option option" where
  \<comment> \<open>\<open>card.lastUpdated ? new Date(card.lastUpdated) : null\<close>\<close>
  "dateOrNull P v =
     (if \<not> truthy P v then Some None
      else case v of Some (JStr s) \<Rightarrow> Some (Some (Date_parse P s)) | _ \<Rightarrow> None)"

definition restoreCard :: "platform \<Rightarrow> json \<Rightarrow> SwaggerCard option" where
  "restoreCard P j =
     (case asString (getProp j ''id'') of None \<Rightarrow> None | Some i \<Rightarrow>
     (case asString (getProp j ''name'') of None \<Rightarrow> None | Some n \<Rightarrow>
     (case asString (getProp j ''url'') of None \<Rightarrow> None | Some u \<Rightarrow>
     (case stringOrAbsent P (getProp j ''swaggerUrl'') of None \<Rightarrow> None | Some sw \<Rightarrow>
     (case boolOrFalse (getProp j ''autoRefresh'') of None \<Rightarrow> None | Some ar \<Rightarrow>
     (case stringOrAbsent P (getProp j ''error'') of None \<Rightarrow> None | Some e \<Rightarrow>
     (case dateOrNull P (getProp j ''lastUpdated'') of None \<Rightarrow> None | Some lu \<Rightarrow>
        Some \<lparr>card_id = i, name = n, url = u, swaggerUrl = sw, autoRefresh = ar,
              loading = False, response = responseOrNull P (getProp j ''response''),
              error = e, lastUpdated = lu\<rparr>)))))))"

definition defaultCards :: "SwaggerCard list" where
  "defaultCards =
     [\<lparr>card_id = ''1'', name = ''users'',
       url = ''http://3dpit.iptime.org:8000/api/v1/users/api-docs'',
       swaggerUrl = None, autoRefresh = False, loading = False, response = JNull,
       error = None, lastUpdated = None\<rparr>]"

definition loadCardsFromStorage :: "platform \<Rightarrow> (string \<rightharpoonup> string) \<Rightarrow> SwaggerCard list option" where
  \<comment> \<open>Every exception of the \<open>try\<close> block (the parse error, \<open>parsed.map\<close> on a value that
      is not an array, a property read on a \<open>null\<close> element) ends in the default card.\<close>
  "loadCardsFromStorage P store =
     (case store STORAGE_KEY of
        None \<Rightarrow> Some defaultCards
      | Some stored \<Rightarrow>
          if stored = [] then Some defaultCards
          else (case JSON_parse P stored of
                  None \<Rightarrow> Some defaultCards
                | Some (JArr xs) \<Rightarrow>
                    if JNull \<in> set xs then Some defaultCards
                    else those (map (restoreCard P) xs)
                | Some _ \<Rightarrow> Some defaultCards))"


definition asStrings :: "json list \<Rightarrow> string list option" where
  "asStrings xs = those (map (\<lambda>j. asString (Some j)) xs)"

definition loadChangedCardIds :: "platform \<Rightarrow> (string \<rightharpoonup> string) \<Rightarrow> string list option" where
  \<comment> \<open>\<open>new Set(parsed)\<close> keeps the first occurrence of each element; \<open>None\<close> when the
      stored array holds a value that is not a string\<close>
  "loadChangedCardIds P store =
     (case store CHANGED_CARD_IDS_KEY of
        None \<Rightarrow> Some []
      | Some stored \<Rightarrow>
          if stored = [] then Some []
          else (case JSON_parse P stored of
                  Some (JArr xs) \<Rightarrow> map_option (\<lambda>ys. rev (remdups (rev ys))) (asStrings xs)
                | _ \<Rightarrow> Some []))"

section \<open>The handlers of \<open>SwaggerView\<close>\<close>

text \<open>
  A handler is a function from the state to the state. Where it calls \<open>setCards\<close> or
  \<open>setChangedCardIds\<close> the effect that mirrors the new value into the store runs after it.
  A form that is rejected shows an alert and returns early: that outcome is
  \<open>ValidationError\<close>, the only error outcome the handlers have.
\<close>

datatype error = ValidationError

definition handleCardClick :: "platform \<Rightarrow> string \<Rightarrow> string \<Rightarrow> state \<Rightarrow> state" where
  \<comment> \<open>The navigation to the detail view that follows is outside the state. It unmounts
      the component; the write to the store is the effect as it runs when the component
      stays mounted, and no property below reads the store after this handler.\<close>
  "handleCardClick P cardName cardId s =
     (if cardId \<in> set (changedCardIds s)
      then saveChangedCardIds P (s\<lparr>changedCardIds := Set_delete cardId (changedCardIds s)\<rparr>)
      else s)"

definition toggleAutoRefresh :: "platform \<Rightarrow> string \<Rightarrow> state \<Rightarrow> state" where
  "toggleAutoRefresh P cardId s =
     saveCards P (s\<lparr>cards :=
        map (\<lambda>c. if card_id c = cardId then c\<lparr>autoRefresh := \<not> autoRefresh c\<rparr> else c) (cards s)\<rparr>)"

definition blank :: "string \<Rightarrow> bool" where
  \<comment> \<open>\<open>!s.trim()\<close>\<close>
  "blank s = (trim s = [])"

definition emptyToAbsent :: "string \<Rightarrow> string option" where
  \<comment> \<open>\<open>s || undefined\<close> for a string\<close>
  "emptyToAbsent s = (if s = [] then None else Some s)"

definition addCard :: "platform \<Rightarrow> int \<Rightarrow> state \<Rightarrow> error option \<times> state" where
  \<comment> \<open>\<open>now\<close> is the value of \<open>Date.now()\<close>\<close>
  "addCard P now s =
     (if blank (newCardName s) \<or> blank (newCardUrl s) then (Some ValidationError, s)
      else
        let newCard = \<lparr>card_id = Int_toString now,
                        name = trim (newCardName s),
                        url = trim (newCardUrl s),
                        swaggerUrl = emptyToAbsent (trim (newCardSwaggerUrl s)),
                        autoRefresh = False, loading = False, response = JNull,
                        error = None, lastUpdated = None\<rparr>
        in (None, saveCards P (s\<lparr>cards := cards s @ [newCard],
                                   newCardName := [], newCardUrl := [],
                                   newCardSwaggerUrl := [], showAddForm := False\<rparr>)))"

definition startEditCard :: "SwaggerCard \<Rightarrow> state \<Rightarrow> state" where
  "startEditCard c s =
     s\<lparr>editingCardId := Some (card_id c), editCardName := name c, editCardUrl := url c,
       editCardSwaggerUrl := (case swaggerUrl c of None \<Rightarrow> [] | Some u \<Rightarrow> u)\<rparr>"

definition cancelEdit :: "state \<Rightarrow> state" where
  "cancelEdit s =
     s\<lparr>editingCardId := None, editCardName := [], editCardUrl := [], editCardSwaggerUrl := []\<rparr>"

definition saveEditCard :: "platform \<Rightarrow> state \<Rightarrow> error option \<times> state" where
  "saveEditCard P s =
     (if blank (editCardName s) \<or> blank (editCardUrl s) then (Some ValidationError, s)
      else (None, saveCards P (cancelEdit (s\<lparr>cards :=
              map (\<lambda>c. if Some (card_id c) = editingCardId s
                        then c\<lparr>name := trim (editCardName s),
                               url := trim (editCardUrl s),
                               swaggerUrl := emptyToAbsent (trim (editCardSwaggerUrl s))\<rparr>
                        else c) (cards s)\<rparr>))))"

definition deleteCard :: "platform \<Rightarrow> bool \<Rightarrow> string \<Rightarrow> state \<Rightarrow> state" where
  \<comment> \<open>\<open>confirmed\<close> is the answer of the \<open>confirm\<close> dialog\<close>
  "deleteCard P confirmed cardId s =
     (if confirmed
      then saveChangedCardIds P (saveCards P
             (s\<lparr>cards := filter (\<lambda>c. card_id c \<noteq> cardId) (cards s),
                changedCardIds := Set_delete cardId (changedCardIds s)\<rparr>))
      else s)"


section \<open>\<open>fetchData\<close>\<close>

text \<open>The literals of the source that are not ASCII, as UTF-8 bytes.\<close>

definition lit_red_circle :: string where
  \<comment> \<open>the emoji U+1F534 (a red circle) that opens the messages\<close>
  "lit_red_circle =
     [CHR 0xF0, CHR 0x9F, CHR 0x94, CHR 0xB4]"

definition lit_no_response :: string where
  \<comment> \<open>the Korean text for ``no response''\<close>
  "lit_no_response =
     [CHR 0xEC, CHR 0x9D, CHR 0x91, CHR 0xEB, CHR 0x8B, CHR 0xB5, CHR 0x20, CHR 0xEC, CHR 0x97,
      CHR 0x86, CHR 0xEC, CHR 0x9D, CHR 0x8C]"

definition lit_not_json :: string where
  \<comment> \<open>the Korean text for ``a response that is not ... was received'', which follows the word JSON\<close>
  "lit_not_json =
     [CHR 0xEC, CHR 0x9D, CHR 0xB4, CHR 0x20, CHR 0xEC, CHR 0x95, CHR 0x84, CHR 0xEB, CHR 0x8B,
      CHR 0x8C, CHR 0x20, CHR 0xEC, CHR 0x9D, CHR 0x91, CHR 0xEB, CHR 0x8B, CHR 0xB5, CHR 0xEC,
      CHR 0x9D, CHR 0x84, CHR 0x20, CHR 0xEB, CHR 0xB0, CHR 0x9B, CHR 0xEC, CHR 0x95, CHR 0x98,
      CHR 0xEC, CHR 0x8A, CHR 0xB5, CHR 0xEB, CHR 0x8B, CHR 0x88, CHR 0xEB, CHR 0x8B,
      CHR 0xA4]"

definition lit_request_failed :: string where
  \<comment> \<open>the Korean text for ``error during the request''\<close>
  "lit_request_failed =
     [CHR 0xEC, CHR 0x9A, CHR 0x94, CHR 0xEC, CHR 0xB2, CHR 0xAD, CHR 0x20, CHR 0xEC, CHR 0xA4,
      CHR 0x91, CHR 0x20, CHR 0xEC, CHR 0x98, CHR 0xA4, CHR 0xEB, CHR 0xA5, CHR 0x98, CHR 0x20,
      CHR 0xEB, CHR 0xB0, CHR 0x9C, CHR 0xEC, CHR 0x83, CHR 0x9D]"

definition lit_connection_failed :: string where
  \<comment> \<open>the Korean text for ``server connection failed''\<close>
  "lit_connection_failed =
     [CHR 0xEC, CHR 0x84, CHR 0x9C, CHR 0xEB, CHR 0xB2, CHR 0x84, CHR 0x20, CHR 0xEC, CHR 0x97,
      CHR 0xB0, CHR 0xEA, CHR 0xB2, CHR 0xB0, CHR 0x20, CHR 0xEC, CHR 0x8B, CHR 0xA4, CHR 0xED,
      CHR 0x8C, CHR 0xA8]"

definition lit_error :: string where
  \<comment> \<open>the Korean word for ``error''\<close>
  "lit_error =
     [CHR 0xEC, CHR 0x98, CHR 0xA4, CHR 0xEB, CHR 0xA5, CHR 0x98]"

definition lit_bad_format :: string where
  \<comment> \<open>the Korean text for ``wrong response format''\<close>
  "lit_bad_format =
     [CHR 0xEC, CHR 0x9E, CHR 0x98, CHR 0xEB, CHR 0xAA, CHR 0xBB, CHR 0xEB, CHR 0x90, CHR 0x9C,
      CHR 0x20, CHR 0xEC, CHR 0x9D, CHR 0x91, CHR 0xEB, CHR 0x8B, CHR 0xB5, CHR 0x20, CHR 0xED,
      CHR 0x98, CHR 0x95, CHR 0xEC, CHR 0x8B, CHR 0x9D]"

text \<open>
  What \<open>fetch\<close> gives: a rejection, or a response with its status line, its
  \<open>content-type\<close> header (\<open>None\<close> when the header is absent), its body as text, and what
  \<open>res.json()\<close> makes of the body (a rejection when the body is not JSON). A thrown value
  is a \<open>TypeError\<close>, another \<open>Error\<close>, or not an \<open>Error\<close> at all.
\<close>

datatype js_exn = JsTypeError string | JsError string | NotAnError

datatype fetch_response =
  Response (status: nat) (statusText: string) (contentType: "string option")
           (bodyText: string) (bodyJson: "js_exn + json")

datatype fetch_outcome = Rejected js_exn | Resolved fetch_response

definition res_ok :: "fetch_response \<Rightarrow> bool" where
  \<comment> \<open>\<open>Response.ok\<close>: the status is in the range 200 to 299\<close>
  "res_ok r = (200 \<le> status r \<and> status r \<le> 299)"

definition fetchData_try :: "fetch_outcome \<Rightarrow> js_exn + json" where
  \<comment> \<open>the \<open>try\<close> block from the \<open>fetch\<close> call to \<open>res.json()\<close>: the parsed body, or the
      value thrown\<close>
  "fetchData_try out =
     (case out of
        Rejected e \<Rightarrow> Inl e
      | Resolved r \<Rightarrow>
          if \<not> res_ok r
          then Inl (JsError (''HTTP '' @ Nat_toString (status r) @ '' '' @ statusText r @ '': ''
                             @ (if bodyText r = [] then lit_no_response else bodyText r)))
          else if (case contentType r of
                     None \<Rightarrow> True
                   | Some ct \<Rightarrow> \<not> includes_str ct ''application/json'')
          then Inl (JsError (''JSON'' @ lit_not_json @ '' (Content-Type: ''
                             @ (case contentType r of None \<Rightarrow> ''null'' | Some ct \<Rightarrow> ct)
                             @ ''): '' @ substring0 200 (bodyText r)))
          else bodyJson r)"

fun matchHttpStatus :: "string \<Rightarrow> string option" where
  \<comment> \<open>\<open>msg.match(/HTTP (\d+)/)\<close>: the first group of the leftmost match\<close>
  "matchHttpStatus [] = None"
| "matchHttpStatus (c # cs) =
     (if startsWith (c # cs) ''HTTP '' \<and> takeWhile isDigit (drop 5 (c # cs)) \<noteq> []
      then Some (takeWhile isDigit (drop 5 (c # cs)))
      else matchHttpStatus cs)"

definition summarize :: "string \<Rightarrow> string" where
  \<comment> \<open>the branch \<open>err instanceof Error\<close> of the \<open>catch\<close> block\<close>
  "summarize msg =
     (if includes_str msg ''HTTP''
      then (case matchHttpStatus msg of
              Some code \<Rightarrow> lit_red_circle @ '' HTTP '' @ code @ '' '' @ lit_error
            | None \<Rightarrow> lit_red_circle @ '' HTTP '' @ lit_error)
      else if includes_str msg ''JSON'' then lit_red_circle @ '' '' @ lit_bad_format
      else lit_red_circle @ '' '' @ (if length msg > 50 then substring0 50 msg @ ''...'' else msg))"

definition errorMessage :: "js_exn \<Rightarrow> string" where
  "errorMessage err =
     (case err of
        JsTypeError msg \<Rightarrow>
          if includes_str msg ''fetch'' then lit_red_circle @ '' '' @ lit_connection_failed
          else summarize msg
      | JsError msg \<Rightarrow> summarize msg
      | NotAnError \<Rightarrow> lit_request_failed)"

text \<open>
  \<open>fetchData\<close> runs in two parts with the request in between. The first part marks the
  card as loading and looks the card up in the \<open>cards\<close> of the render that created the
  callback (here: of the state at the call); it returns the \<open>url\<close> to request, or \<open>None\<close>
  when it returns without a request. The second part is the updater that the \<open>try\<close> block
  or the \<open>catch\<close> block passes to \<open>setCards\<close>; it runs on the state at that later time.
\<close>

definition fetchData_begin :: "platform \<Rightarrow> string \<Rightarrow> state \<Rightarrow> string option \<times> state" where
  "fetchData_begin P cardId s =
     (map_option url (find (\<lambda>c. card_id c = cardId) (cards s)),
      saveCards P (s\<lparr>cards :=
        map (\<lambda>c. if card_id c = cardId then c\<lparr>loading := True\<rparr> else c) (cards s)\<rparr>))"

definition responseChanged :: "platform \<Rightarrow> SwaggerCard \<Rightarrow> json \<Rightarrow> bool" where
  "responseChanged P c data = (JSON_stringify P (response c) \<noteq> JSON_stringify P data)"

definition fetchData_fulfilled :: "platform \<Rightarrow> string \<Rightarrow> json \<Rightarrow> int \<Rightarrow> state \<Rightarrow> state" where
  \<comment> \<open>\<open>now\<close> is the time value of \<open>new Date()\<close>\<close>
  "fetchData_fulfilled P cardId data now s =
     (let highlight = list_ex (\<lambda>c. card_id c = cardId \<and> responseChanged P c data \<and> autoRefresh c) (cards s);
          s1 = s\<lparr>cards :=
                 map (\<lambda>c. if card_id c = cardId
                           then c\<lparr>response := data, error := None, loading := False,
                                  lastUpdated := (if responseChanged P c data
                                                  then Some (ValidDate now) else lastUpdated c)\<rparr>
                           else c) (cards s)\<rparr>
      in if highlight
         then saveChangedCardIds P (saveCards P (s1\<lparr>changedCardIds := Set_add cardId (changedCardIds s)\<rparr>))
         else saveCards P s1)"

definition fetchData_rejected :: "platform \<Rightarrow> string \<Rightarrow> js_exn \<Rightarrow> state \<Rightarrow> state" where
  "fetchData_rejected P cardId err s =
     saveCards P (s\<lparr>cards :=
        map (\<lambda>c. if card_id c = cardId
                  then c\<lparr>error := Some (errorMessage err), loading := False\<rparr>
                  else c) (cards s)\<rparr>)"

definition fetchData_end :: "platform \<Rightarrow> string \<Rightarrow> fetch_outcome \<Rightarrow> int \<Rightarrow> state \<Rightarrow> state" where
  "fetchData_end P cardId out now s =
     (case fetchData_try out of
        Inr data \<Rightarrow> fetchData_fulfilled P cardId data now s
      | Inl err \<Rightarrow> fetchData_rejected P cardId err s)"

section \<open>Deep equality of the specification\<close>


section \<open>Example platform and states\<close>

text \<open>Concrete inputs at which the properties below are evaluated.\<close>

definition examplePlatform :: platform where
  "examplePlatform =
     \<lparr>JSON_parse = (\<lambda>s. None),
      Number_toJSON = (\<lambda>n. ''0''),
      Number_toBoolean = (\<lambda>n. False),
      toISOString = (\<lambda>t. ''1970-01-01T00:00:00.000Z''),
      Date_parse = (\<lambda>s. if s = ''1970-01-01T00:00:00.000Z'' then ValidDate 0 else InvalidDate)\<rparr>"


definition exampleState :: state where
  "exampleState =
     \<lparr>cards = defaultCards, changedCardIds = [''1''],
      newCardName = [], newCardUrl = [], newCardSwaggerUrl = [], showAddForm = False,
      editingCardId = None, editCardName = [], editCardUrl = [], editCardSwaggerUrl = [],
      localStorage = Map.empty\<rparr>"

definition ordersForm :: state where
  "ordersForm = exampleState\<lparr>newCardName := ''Orders'', newCardUrl := ''http://x/openapi'', showAddForm := True\<rparr>"

definition billingForm :: "state \<Rightarrow> state" where
  \<comment> \<open>the add form filled in again\<close>
  "billingForm s = s\<lparr>newCardName := ''Billing'', newCardUrl := ''http://y/openapi''\<rparr>"

definition editingUnknown :: state where
  \<comment> \<open>the edit form filled in while \<open>editingCardId\<close> names a card that the registry does not hold\<close>
  "editingUnknown =
     exampleState\<lparr>editingCardId := Some ''42'', editCardName := ''Orders'',
                  editCardUrl := ''http://x/openapi''\<rparr>"

definition editingDefault :: state where
  \<comment> \<open>the default card opened in the edit form, its name retyped with spaces around it\<close>
  "editingDefault = (startEditCard (hd defaultCards) exampleState)\<lparr>editCardName := '' members ''\<rparr>"

definition exampleAB :: json where
  "exampleAB = JObj [(''a'', JStr ''x''), (''b'', JStr ''y'')]"

definition exampleBA :: json where
  "exampleBA = JObj [(''b'', JStr ''y''), (''a'', JStr ''x'')]"

definition watchedState :: state where
  \<comment> \<open>the default card with a stored response, polled automatically and not highlighted\<close>
  "watchedState =
     exampleState\<lparr>cards := map (\<lambda>c. c\<lparr>response := exampleAB, autoRefresh := True\<rparr>) defaultCards,
                  changedCardIds := []\<rparr>"


definition http500 :: fetch_outcome where
  "http500 = Resolved (Response 500 ''Internal Server Error'' (Some ''text/plain'') ''oops''
                (Inl (JsError ''Unexpected token o in JSON at position 0'')))"

definition longHeader :: fetch_outcome where
  \<comment> \<open>a response with status 200 whose \<open>content-type\<close> header is not JSON and carries
      the letters HTTP and 300 digits\<close>
  "longHeader = Resolved (Response 200 ''OK''
                  (Some (''text/plain; v=HTTP '' @ replicate 300 (CHR ''1''))) ''hello''
                  (Inl (JsError ''Unexpected token h in JSON at position 0'')))"


section \<open>Properties\<close>

subsection \<open>The members of an object, as \<open>JSON.stringify\<close> writes them\<close>

text \<open>
  Keys that are array indices are written first, in ascending numeric order, and the
  other keys in the order of their creation; of two members with the same key the
  value of the last one is written, at the place of the first.
\<close>

lemma index_keys_enumerated_ascending:
  "JSON_stringify P (JObj [(''b'', x), (''10'', y), (''9'', z)])
     = JSON_stringify P (JObj [(''9'', z), (''b'', x), (''10'', y)])"
  by (simp add: JSON_stringify_def ownProperties_def arrayIndex_def isDigit_def digitsValue_def)

lemma last_member_wins:
  "JSON_stringify P (JObj [(''a'', x), (''b'', y), (''a'', z)])
     = JSON_stringify P (JObj [(''a'', z), (''b'', y)])"
  by (simp add: JSON_stringify_def ownProperties_def arrayIndex_def isDigit_def digitsValue_def)


subsection \<open>The store effects and the list updates\<close>

lemma saveCards_fields [simp]:
  "cards (saveCards P s) = cards s"
  "changedCardIds (saveCards P s) = changedCardIds s"
  "localStorage (saveCards P s) STORAGE_KEY = Some (serializeCards P (cards s))"
  by (simp_all add: saveCards_def)

lemma saveChangedCardIds_fields [simp]:
  "cards (saveChangedCardIds P s) = cards s"
  "changedCardIds (saveChangedCardIds P s) = changedCardIds s"
  "localStorage (saveChangedCardIds P s) STORAGE_KEY = localStorage s STORAGE_KEY"
  by (simp_all add: saveChangedCardIds_def STORAGE_KEY_def CHANGED_CARD_IDS_KEY_def)

lemma Set_delete_set [simp]: "set (Set_delete x xs) = set xs - {x}"
  by (auto simp: Set_delete_def)

lemma Set_add_set [simp]: "set (Set_add x xs) = insert x (set xs)"
  by (auto simp: Set_add_def)

lemma saveChangedCardIds_key [simp]:
  "localStorage (saveChangedCardIds P s) CHANGED_CARD_IDS_KEY =
     Some (JSON_stringify P (JArr (map JStr (changedCardIds s))))"
  by (simp add: saveChangedCardIds_def)

lemma map_unmatched:
  "cardId \<notin> card_id ` set cs \<Longrightarrow> map (\<lambda>c. if card_id c = cardId then f c else c) cs = cs"
  by (induction cs) auto

lemma find_unmatched:
  "cardId \<notin> card_id ` set cs \<Longrightarrow> find (\<lambda>c. card_id c = cardId) cs = None"
  by (induction cs) auto


subsection \<open>Handlers called with an unknown card id\<close>

text \<open>
  Claim C10. \<open>fetchData\<close> and \<open>toggleAutoRefresh\<close>, called with a card id that no card of
  the registry has, leave the card sequence as it is: the loading mark of \<open>fetchData\<close> maps
  every card to itself, the lookup finds no card, so \<open>fetchData\<close> returns before any
  request (\<open>None\<close>), and \<open>toggleAutoRefresh\<close> maps every card to itself. Neither handler
  has an error outcome.
\<close>

theorem unknown_id_no_effect:
  assumes "cardId \<notin> card_id ` set (cards s)"
  shows "fst (fetchData_begin P cardId s) = None
       \<and> cards (snd (fetchData_begin P cardId s)) = cards s
       \<and> cards (toggleAutoRefresh P cardId s) = cards s"
  using assms by (simp add: fetchData_begin_def toggleAutoRefresh_def map_unmatched find_unmatched)

theorem unknown_id_no_effect_witness:
  "''42'' \<notin> card_id ` set (cards exampleState)
   \<and> fst (fetchData_begin examplePlatform ''42'' exampleState) = None
   \<and> cards (snd (fetchData_begin examplePlatform ''42'' exampleState)) = cards exampleState
   \<and> cards (toggleAutoRefresh examplePlatform ''42'' exampleState) = cards exampleState"
proof -
  have h: "''42'' \<notin> card_id ` set (cards exampleState)"
    by (simp add: exampleState_def defaultCards_def)
  show ?thesis using h unknown_id_no_effect [OF h, of examplePlatform] by simp
qed


subsection \<open>Adding a card\<close>

lemma dropWhile_all: "(\<forall>x\<in>set (dropWhile P xs). P x) = (\<forall>x\<in>set xs. P x)"
  by (induction xs) auto

lemma blank_iff: "blank s = list_all isWhiteSpace s"
  by (simp add: blank_def trim_def dropWhile_eq_Nil_conv dropWhile_all list_all_iff)

text \<open>
  Claim C5. \<open>addCard\<close> with a name or a url that is empty or consists of white space only
  ends in \<open>ValidationError\<close> and returns the state it was given. With a name and a url
  that both hold a character other than white space it reports no error and appends
  exactly one card at the end of the sequence; the card carries the trimmed name and url,
  \<open>autoRefresh = false\<close>, \<open>loading = false\<close>, \<open>response = null\<close> and \<open>error = null\<close>.
\<close>

theorem addCard_validates_and_appends:
  "(list_all isWhiteSpace (newCardName s) \<or> list_all isWhiteSpace (newCardUrl s)
      \<longrightarrow> addCard P now s = (Some ValidationError, s))
   \<and> (\<not> list_all isWhiteSpace (newCardName s) \<and> \<not> list_all isWhiteSpace (newCardUrl s)
      \<longrightarrow> fst (addCard P now s) = None
        \<and> (\<exists>c. cards (snd (addCard P now s)) = cards s @ [c]
               \<and> name c = trim (newCardName s) \<and> name c \<noteq> []
               \<and> url c = trim (newCardUrl s) \<and> url c \<noteq> []
               \<and> \<not> autoRefresh c \<and> \<not> loading c \<and> response c = JNull \<and> error c = None))"
  using blank_iff [of "newCardName s"] blank_iff [of "newCardUrl s"]
  by (auto simp: addCard_def Let_def blank_def)

theorem addCard_validates_and_appends_witness:
  "list_all isWhiteSpace (newCardName exampleState)
   \<and> addCard examplePlatform 1700 exampleState = (Some ValidationError, exampleState)
   \<and> \<not> list_all isWhiteSpace (newCardName ordersForm)
   \<and> \<not> list_all isWhiteSpace (newCardUrl ordersForm)
   \<and> fst (addCard examplePlatform 1700 ordersForm) = None
   \<and> (\<exists>c. cards (snd (addCard examplePlatform 1700 ordersForm)) = cards ordersForm @ [c]
          \<and> name c = trim (newCardName ordersForm) \<and> name c \<noteq> []
          \<and> url c = trim (newCardUrl ordersForm) \<and> url c \<noteq> []
          \<and> \<not> autoRefresh c \<and> \<not> loading c \<and> response c = JNull \<and> error c = None)"
proof -
  have a: "list_all isWhiteSpace (newCardName exampleState)"
    by (simp add: exampleState_def)
  have b: "\<not> list_all isWhiteSpace (newCardName ordersForm)"
    by (simp add: ordersForm_def isWhiteSpace_def)
  have c: "\<not> list_all isWhiteSpace (newCardUrl ordersForm)"
    by (simp add: ordersForm_def isWhiteSpace_def)
  show ?thesis
    using a b c addCard_validates_and_appends [of exampleState examplePlatform 1700]
      addCard_validates_and_appends [of ordersForm examplePlatform 1700]
    by blast
qed


subsection \<open>Deleting a card\<close>

text \<open>
  Claim C9, as stated: \<open>deleteCard\<close> removes the card and its id from the changed-card-id
  set. The handler asks first; when the user declines the dialog, the card and the id in
  the set both stay.
\<close>

theorem deleteCard_declined_counterexample:
  "''1'' \<in> card_id ` set (cards (deleteCard examplePlatform False ''1'' exampleState))
   \<and> ''1'' \<in> set (changedCardIds (deleteCard examplePlatform False ''1'' exampleState))"
  by (simp add: deleteCard_def exampleState_def defaultCards_def)

text \<open>
  Claim C9, amended. When the user accepts the dialog, \<open>deleteCard\<close> removes every card
  with the given id from the registry (the other cards stay, in order) and removes the id
  from the changed-card-id set, so the id is in neither; both are mirrored into the store.
  When the user declines, the state is unchanged.
\<close>

theorem deleteCard_when_confirmed:
  "(confirmed \<longrightarrow>
      cards (deleteCard P confirmed cardId s) = filter (\<lambda>c. card_id c \<noteq> cardId) (cards s)
    \<and> cardId \<notin> card_id ` set (cards (deleteCard P confirmed cardId s))
    \<and> set (changedCardIds (deleteCard P confirmed cardId s)) = set (changedCardIds s) - {cardId}
    \<and> cardId \<notin> set (changedCardIds (deleteCard P confirmed cardId s))
    \<and> localStorage (deleteCard P confirmed cardId s) STORAGE_KEY
          = Some (serializeCards P (cards (deleteCard P confirmed cardId s)))
    \<and> localStorage (deleteCard P confirmed cardId s) CHANGED_CARD_IDS_KEY
          = Some (JSON_stringify P (JArr (map JStr (changedCardIds (deleteCard P confirmed cardId s))))))
   \<and> (\<not> confirmed \<longrightarrow> deleteCard P confirmed cardId s = s)"
  by (auto simp: deleteCard_def)

theorem deleteCard_when_confirmed_witness:
  "cards (deleteCard examplePlatform True ''1'' exampleState) = []
   \<and> ''1'' \<notin> card_id ` set (cards (deleteCard examplePlatform True ''1'' exampleState))
   \<and> ''1'' \<notin> set (changedCardIds (deleteCard examplePlatform True ''1'' exampleState))
   \<and> deleteCard examplePlatform False ''1'' exampleState = exampleState"
  using deleteCard_when_confirmed [of True examplePlatform "''1''" exampleState]
    deleteCard_when_confirmed [of False examplePlatform "''1''" exampleState]
  by (simp add: exampleState_def defaultCards_def)


subsection \<open>The decimal text of a number determines the number\<close>

lemma digitChar_inj: "a < 16 \<Longrightarrow> b < 16 \<Longrightarrow> digitChar a = digitChar b \<Longrightarrow> a = b"
proof -
  assume a: "a < 16" and b: "b < 16" and e: "digitChar a = digitChar b"
  have d: "distinct ''0123456789abcdef''" by simp
  have "''0123456789abcdef'' ! a = ''0123456789abcdef'' ! b"
    using e a b by (simp add: digitChar_def)
  then show "a = b"
    using d a b by (simp add: nth_eq_iff_index_eq)
qed

lemma digitChar_isDigit: "d < 10 \<Longrightarrow> isDigit (digitChar d)"
proof -
  assume "d < 10"
  then have "d \<in> {0,1,2,3,4,5,6,7,8,9}" by auto
  then show ?thesis by (auto simp: digitChar_def isDigit_def)
qed

lemma Nat_toString_digits: "Nat_toString n \<noteq> [] \<and> list_all isDigit (Nat_toString n)"
proof (induction n rule: Nat_toString.induct)
  case (1 n)
  show ?case
  proof (cases "n < 10")
    case True
    then show ?thesis by (simp add: Nat_toString.simps [of n] digitChar_isDigit)
  next
    case False
    then show ?thesis using 1 by (simp add: Nat_toString.simps [of n] digitChar_isDigit)
  qed
qed

lemma Nat_toString_inj: "Nat_toString m = Nat_toString n \<Longrightarrow> m = n"
proof (induction m arbitrary: n rule: Nat_toString.induct)
  case (1 m)
  show ?case
  proof (cases "m < 10")
    case m: True
    show ?thesis
    proof (cases "n < 10")
      case True
      then show ?thesis
        using m "1.prems" digitChar_inj [of m n]
        by (simp add: Nat_toString.simps [of m] Nat_toString.simps [of n])
    next
      case False
      then show ?thesis
        using m "1.prems" Nat_toString_digits [of "n div 10"]
        by (simp add: Nat_toString.simps [of m] Nat_toString.simps [of n])
    qed
  next
    case m: False
    show ?thesis
    proof (cases "n < 10")
      case True
      then show ?thesis
        using m "1.prems" Nat_toString_digits [of "m div 10"]
        by (simp add: Nat_toString.simps [of m] Nat_toString.simps [of n])
    next
      case False
      then have e: "Nat_toString (m div 10) = Nat_toString (n div 10)"
        and d: "digitChar (m mod 10) = digitChar (n mod 10)"
        using m "1.prems"
        by (simp_all add: Nat_toString.simps [of m] Nat_toString.simps [of n])
      have q: "m div 10 = n div 10" using "1.IH" [OF m e] .
      have r: "m mod 10 = n mod 10" using d digitChar_inj [of "m mod 10" "n mod 10"] by simp
      show ?thesis using q r by (metis div_mult_mod_eq)
    qed
  qed
qed

lemma Int_toString_inj: "Int_toString i = Int_toString j \<Longrightarrow> i = j"
proof -
  assume e: "Int_toString i = Int_toString j"
  have nd: "\<And>n xs. Nat_toString n \<noteq> CHR ''-'' # xs"
  proof
    fix n xs
    assume a: "Nat_toString n = CHR ''-'' # xs"
    have "list_all isDigit (Nat_toString n)" using Nat_toString_digits [of n] by simp
    then show False unfolding a by (simp add: isDigit_def)
  qed
  show "i = j"
  proof (cases "i < 0")
    case i: True
    show ?thesis
    proof (cases "j < 0")
      case True
      then have "nat (- i) = nat (- j)"
        using e i Nat_toString_inj by (simp add: Int_toString_def)
      then show ?thesis using i True by simp
    next
      case False
      then show ?thesis using e i nd [of "nat j" "Nat_toString (nat (- i))"] by (simp add: Int_toString_def)
    qed
  next
    case i: False
    show ?thesis
    proof (cases "j < 0")
      case True
      then show ?thesis using e i nd [of "nat i" "Nat_toString (nat (- j))"] by (simp add: Int_toString_def)
    next
      case False
      then have "nat i = nat j"
        using e i Nat_toString_inj by (simp add: Int_toString_def)
      then show ?thesis using i False by simp
    qed
  qed
qed


subsection \<open>Editing a card\<close>

text \<open>
  Claim C3, as stated: \<open>updateCard\<close> fails with \<open>NotFoundError\<close> when the card id is absent.
  \<open>saveEditCard\<close>, with the edit form filled in and an editing id that no card has,
  reports no error and leaves the card sequence as it is.
\<close>

theorem saveEditCard_unknown_id_counterexample:
  "editingCardId editingUnknown = Some ''42''
   \<and> ''42'' \<notin> card_id ` set (cards editingUnknown)
   \<and> fst (saveEditCard examplePlatform editingUnknown) = None
   \<and> cards (snd (saveEditCard examplePlatform editingUnknown)) = cards editingUnknown"
  by (simp add: saveEditCard_def editingUnknown_def exampleState_def defaultCards_def
      blank_def trim_def isWhiteSpace_def cancelEdit_def)

lemma map_unmatched_option:
  "editing \<notin> Some ` card_id ` set cs \<Longrightarrow>
   map (\<lambda>c. if Some (card_id c) = editing then f c else c) cs = cs"
  by (induction cs) auto

lemma edit_keeps_fields:
  "map card_id (map (\<lambda>c. if p c then c\<lparr>name := n, url := u, swaggerUrl := w\<rparr> else c) cs) = map card_id cs"
  "map response (map (\<lambda>c. if p c then c\<lparr>name := n, url := u, swaggerUrl := w\<rparr> else c) cs) = map response cs"
  "map error (map (\<lambda>c. if p c then c\<lparr>name := n, url := u, swaggerUrl := w\<rparr> else c) cs) = map error cs"
  "map lastUpdated (map (\<lambda>c. if p c then c\<lparr>name := n, url := u, swaggerUrl := w\<rparr> else c) cs) = map lastUpdated cs"
  "map autoRefresh (map (\<lambda>c. if p c then c\<lparr>name := n, url := u, swaggerUrl := w\<rparr> else c) cs) = map autoRefresh cs"
  "map loading (map (\<lambda>c. if p c then c\<lparr>name := n, url := u, swaggerUrl := w\<rparr> else c) cs) = map loading cs"
  by (induction cs) simp_all

lemma saveEditCard_valid:
  assumes "\<not> blank (editCardName s)" "\<not> blank (editCardUrl s)"
  shows "fst (saveEditCard P s) = None"
    and "cards (snd (saveEditCard P s)) =
         map (\<lambda>c. if Some (card_id c) = editingCardId s
                   then c\<lparr>name := trim (editCardName s), url := trim (editCardUrl s),
                          swaggerUrl := emptyToAbsent (trim (editCardSwaggerUrl s))\<rparr>
                   else c) (cards s)"
    and "editingCardId (snd (saveEditCard P s)) = None"
    and "localStorage (snd (saveEditCard P s)) STORAGE_KEY
           = Some (serializeCards P (cards (snd (saveEditCard P s))))"
  using assms by (simp_all add: saveEditCard_def cancelEdit_def saveCards_def)

text \<open>
  Claim C3, amended. \<open>saveEditCard\<close> has no not-found outcome. With a name or a url that
  is empty or white space only it ends in \<open>ValidationError\<close> and returns the state it was
  given. Otherwise it reports no error; every card whose id is the editing id gets the
  trimmed name and url of the form and the trimmed swagger url (absent when that is
  empty), and keeps its id, response, error, \<open>lastUpdated\<close>, \<open>autoRefresh\<close> and \<open>loading\<close>; every
  other card is unchanged, so that with an editing id that no card has the sequence is
  unchanged; the edit form is closed and the new sequence is written to the store.
\<close>

theorem saveEditCard_merges_or_ignores:
  "(list_all isWhiteSpace (editCardName s) \<or> list_all isWhiteSpace (editCardUrl s)
      \<longrightarrow> saveEditCard P s = (Some ValidationError, s))
   \<and> (\<not> list_all isWhiteSpace (editCardName s) \<and> \<not> list_all isWhiteSpace (editCardUrl s)
      \<longrightarrow> fst (saveEditCard P s) = None
        \<and> cards (snd (saveEditCard P s)) =
            map (\<lambda>c. if Some (card_id c) = editingCardId s
                      then c\<lparr>name := trim (editCardName s), url := trim (editCardUrl s),
                             swaggerUrl := emptyToAbsent (trim (editCardSwaggerUrl s))\<rparr>
                      else c) (cards s)
        \<and> map card_id (cards (snd (saveEditCard P s))) = map card_id (cards s)
        \<and> map response (cards (snd (saveEditCard P s))) = map response (cards s)
        \<and> map error (cards (snd (saveEditCard P s))) = map error (cards s)
        \<and> map lastUpdated (cards (snd (saveEditCard P s))) = map lastUpdated (cards s)
        \<and> map autoRefresh (cards (snd (saveEditCard P s))) = map autoRefresh (cards s)
        \<and> map loading (cards (snd (saveEditCard P s))) = map loading (cards s)
        \<and> (editingCardId s \<notin> Some ` card_id ` set (cards s)
             \<longrightarrow> cards (snd (saveEditCard P s)) = cards s)
        \<and> editingCardId (snd (saveEditCard P s)) = None
        \<and> localStorage (snd (saveEditCard P s)) STORAGE_KEY
             = Some (serializeCards P (cards (snd (saveEditCard P s)))))"
proof -
  have a: "list_all isWhiteSpace (editCardName s) \<or> list_all isWhiteSpace (editCardUrl s)
      \<longrightarrow> saveEditCard P s = (Some ValidationError, s)"
    by (simp add: saveEditCard_def blank_iff)
  have b: "\<not> list_all isWhiteSpace (editCardName s) \<and> \<not> list_all isWhiteSpace (editCardUrl s)
      \<longrightarrow> fst (saveEditCard P s) = None
        \<and> cards (snd (saveEditCard P s)) =
            map (\<lambda>c. if Some (card_id c) = editingCardId s
                      then c\<lparr>name := trim (editCardName s), url := trim (editCardUrl s),
                             swaggerUrl := emptyToAbsent (trim (editCardSwaggerUrl s))\<rparr>
                      else c) (cards s)
        \<and> map card_id (cards (snd (saveEditCard P s))) = map card_id (cards s)
        \<and> map response (cards (snd (saveEditCard P s))) = map response (cards s)
        \<and> map error (cards (snd (saveEditCard P s))) = map error (cards s)
        \<and> map lastUpdated (cards (snd (saveEditCard P s))) = map lastUpdated (cards s)
        \<and> map autoRefresh (cards (snd (saveEditCard P s))) = map autoRefresh (cards s)
        \<and> map loading (cards (snd (saveEditCard P s))) = map loading (cards s)
        \<and> (editingCardId s \<notin> Some ` card_id ` set (cards s)
             \<longrightarrow> cards (snd (saveEditCard P s)) = cards s)
        \<and> editingCardId (snd (saveEditCard P s)) = None
        \<and> localStorage (snd (saveEditCard P s)) STORAGE_KEY
             = Some (serializeCards P (cards (snd (saveEditCard P s))))"
  proof
    assume "\<not> list_all isWhiteSpace (editCardName s) \<and> \<not> list_all isWhiteSpace (editCardUrl s)"
    then have v: "\<not> blank (editCardName s)" "\<not> blank (editCardUrl s)"
      by (simp_all add: blank_iff)
    note f = saveEditCard_valid [OF v, of P]
    show "fst (saveEditCard P s) = None
        \<and> cards (snd (saveEditCard P s)) =
            map (\<lambda>c. if Some (card_id c) = editingCardId s
                      then c\<lparr>name := trim (editCardName s), url := trim (editCardUrl s),
                             swaggerUrl := emptyToAbsent (trim (editCardSwaggerUrl s))\<rparr>
                      else c) (cards s)
        \<and> map card_id (cards (snd (saveEditCard P s))) = map card_id (cards s)
        \<and> map response (cards (snd (saveEditCard P s))) = map response (cards s)
        \<and> map error (cards (snd (saveEditCard P s))) = map error (cards s)
        \<and> map lastUpdated (cards (snd (saveEditCard P s))) = map lastUpdated (cards s)
        \<and> map autoRefresh (cards (snd (saveEditCard P s))) = map autoRefresh (cards s)
        \<and> map loading (cards (snd (saveEditCard P s))) = map loading (cards s)
        \<and> (editingCardId s \<notin> Some ` card_id ` set (cards s)
             \<longrightarrow> cards (snd (saveEditCard P s)) = cards s)
        \<and> editingCardId (snd (saveEditCard P s)) = None
        \<and> localStorage (snd (saveEditCard P s)) STORAGE_KEY
             = Some (serializeCards P (cards (snd (saveEditCard P s))))"
      using f(1) f(3) f(4) unfolding f(2)
      by (simp add: edit_keeps_fields map_unmatched_option)
  qed
  show ?thesis using a b by blast
qed

theorem saveEditCard_merges_or_ignores_witness:
  "list_all isWhiteSpace (editCardName exampleState)
   \<and> saveEditCard examplePlatform exampleState = (Some ValidationError, exampleState)
   \<and> \<not> list_all isWhiteSpace (editCardName editingDefault)
   \<and> \<not> list_all isWhiteSpace (editCardUrl editingDefault)
   \<and> fst (saveEditCard examplePlatform editingDefault) = None
   \<and> map name (cards (snd (saveEditCard examplePlatform editingDefault))) = [''members'']
   \<and> map response (cards (snd (saveEditCard examplePlatform editingDefault)))
        = map response (cards editingDefault)
   \<and> \<not> list_all isWhiteSpace (editCardName editingUnknown)
   \<and> \<not> list_all isWhiteSpace (editCardUrl editingUnknown)
   \<and> editingCardId editingUnknown \<notin> Some ` card_id ` set (cards editingUnknown)
   \<and> cards (snd (saveEditCard examplePlatform editingUnknown)) = cards editingUnknown"
proof -
  have a: "list_all isWhiteSpace (editCardName exampleState)"
    by (simp add: exampleState_def)
  have b: "\<not> list_all isWhiteSpace (editCardName editingDefault)"
    "\<not> list_all isWhiteSpace (editCardUrl editingDefault)"
    by (simp_all add: editingDefault_def startEditCard_def exampleState_def defaultCards_def
        isWhiteSpace_def)
  have c: "\<not> list_all isWhiteSpace (editCardName editingUnknown)"
    "\<not> list_all isWhiteSpace (editCardUrl editingUnknown)"
    "editingCardId editingUnknown \<notin> Some ` card_id ` set (cards editingUnknown)"
    by (simp_all add: editingUnknown_def exampleState_def defaultCards_def isWhiteSpace_def)
  have n: "map name (map (\<lambda>c. if Some (card_id c) = editingCardId editingDefault
                      then c\<lparr>name := trim (editCardName editingDefault),
                             url := trim (editCardUrl editingDefault),
                             swaggerUrl := emptyToAbsent (trim (editCardSwaggerUrl editingDefault))\<rparr>
                      else c) (cards editingDefault)) = [''members'']"
    by (simp add: editingDefault_def startEditCard_def exampleState_def defaultCards_def
        trim_def isWhiteSpace_def)
  note t1 = saveEditCard_merges_or_ignores [of exampleState examplePlatform]
  note t2 = saveEditCard_merges_or_ignores [of editingDefault examplePlatform]
  note t3 = saveEditCard_merges_or_ignores [of editingUnknown examplePlatform]
  have w1: "saveEditCard examplePlatform exampleState = (Some ValidationError, exampleState)"
    using t1 a by blast
  have w2: "fst (saveEditCard examplePlatform editingDefault) = None"
    "map response (cards (snd (saveEditCard examplePlatform editingDefault)))
        = map response (cards editingDefault)"
    using t2 b by blast+
  have w2n: "map name (cards (snd (saveEditCard examplePlatform editingDefault))) = [''members'']"
    using t2 b n by simp
  have w3: "cards (snd (saveEditCard examplePlatform editingUnknown)) = cards editingUnknown"
    using t3 c by blast
  show ?thesis using a b c w1 w2 w2n w3 by blast
qed


subsection \<open>The failure path of \<open>fetchData\<close>\<close>

lemma rejected_cards:
  "cards (fetchData_rejected P cardId err s) =
     map (\<lambda>c. if card_id c = cardId
               then c\<lparr>error := Some (errorMessage err), loading := False\<rparr> else c) (cards s)"
  by (simp add: fetchData_rejected_def)

lemma rejected_response:
  "map response (map (\<lambda>c. if card_id c = cardId then c\<lparr>error := e, loading := l\<rparr> else c) cs)
     = map response cs"
  by (induction cs) simp_all

lemma includes_append: "includes_str (p @ sub @ r) sub"
proof (induction p)
  case Nil
  show ?case
  proof (cases "sub @ r")
    case Nil
    then show ?thesis by simp
  next
    case (Cons a list)
    have "take (length sub) (sub @ r) = sub" by simp
    then show ?thesis unfolding Cons by (simp add: startsWith_def)
  qed
next
  case (Cons x p)
  then show ?case by simp
qed

lemma includes_subset: "includes_str s sub \<Longrightarrow> set sub \<subseteq> set s"
proof (induction s)
  case Nil
  then show ?case by simp
next
  case (Cons c cs)
  show ?case
  proof (cases "startsWith (c # cs) sub")
    case True
    then have "sub = take (length sub) (c # cs)" by (simp add: startsWith_def)
    then have "set sub \<subseteq> set (c # cs)" by (metis set_take_subset)
    then show ?thesis .
  next
    case False
    then have "includes_str cs sub" using Cons.prems by simp
    then show ?thesis using Cons.IH by auto
  qed
qed

lemma takeWhile_digits: "list_all isDigit xs \<Longrightarrow> restOk r \<Longrightarrow> takeWhile isDigit (xs @ r) = xs"
  by (induction xs) (auto simp: restOk_def split: list.splits)

lemma matchHttpStatus_skip: "CHR ''H'' \<notin> set p \<Longrightarrow> matchHttpStatus (p @ s) = matchHttpStatus s"
  by (induction p) (auto simp: startsWith_def)

lemma matchHttpStatus_hit:
  assumes "ds \<noteq> []" "list_all isDigit ds" "restOk r"
  shows "matchHttpStatus (''HTTP '' @ ds @ r) = Some ds"
  using assms takeWhile_digits [of ds r] by (simp add: startsWith_def)

lemma summarize_http:
  assumes "CHR ''H'' \<notin> set p" "ds \<noteq> []" "list_all isDigit ds" "restOk r"
  shows "summarize (p @ ''HTTP '' @ ds @ r) = lit_red_circle @ '' HTTP '' @ ds @ '' '' @ lit_error"
proof -
  have i: "includes_str (p @ ''HTTP'' @ ('' '' @ ds @ r)) ''HTTP''" by (rule includes_append)
  have m: "matchHttpStatus (p @ ''HTTP '' @ ds @ r) = Some ds"
    using matchHttpStatus_skip [OF assms(1)] matchHttpStatus_hit [OF assms(2,3,4)] by simp
  show ?thesis using i m by (simp add: summarize_def)
qed

lemma http_failure_message:
  assumes "\<not> res_ok r"
  shows "\<exists>err. fetchData_try (Resolved r) = Inl err
           \<and> errorMessage err = lit_red_circle @ '' HTTP '' @ Nat_toString (status r) @ '' '' @ lit_error"
proof -
  let ?rest = "'' '' @ statusText r @ '': '' @ (if bodyText r = [] then lit_no_response else bodyText r)"
  have t: "fetchData_try (Resolved r) = Inl (JsError ([] @ ''HTTP '' @ Nat_toString (status r) @ ?rest))"
    using assms by (simp add: fetchData_try_def)
  have d: "Nat_toString (status r) \<noteq> []" "list_all isDigit (Nat_toString (status r))"
    using Nat_toString_digits [of "status r"] by simp_all
  have ok: "restOk ?rest" by (simp add: restOk_def isDigit_def)
  have "summarize ([] @ ''HTTP '' @ Nat_toString (status r) @ ?rest)
          = lit_red_circle @ '' HTTP '' @ Nat_toString (status r) @ '' '' @ lit_error"
    by (rule summarize_http [OF _ d ok]) simp
  then show ?thesis unfolding t by (simp add: errorMessage_def)
qed

text \<open>
  The failure path, for every input. When the request fails (the \<open>try\<close> block throws
  \<open>err\<close>), the update path replaces the cards with the given id by the same card with
  \<open>error\<close> set to the message
  that the \<open>catch\<close> block derives from \<open>err\<close> and \<open>loading\<close> set to false; it changes no
  other card, no \<open>response\<close> and not the changed-card-id set. The message is: for a
  rejected request whose \<open>TypeError\<close> mentions \<open>fetch\<close>, the connection text; for a
  response whose status is not in 200 to 299, the red circle, \<open>HTTP\<close>, the status code
  and the word for error; for another error whose text contains \<open>JSON\<close> and not \<open>HTTP\<close>,
  the wrong-format text; for an error whose text contains neither, the red circle and
  the text, cut to its first 50 characters and three dots when it is longer.
\<close>

theorem fetch_failure_update:
  "(fetchData_try out = Inl err \<longrightarrow>
      cards (fetchData_end P cardId out now s)
        = map (\<lambda>c. if card_id c = cardId
                    then c\<lparr>error := Some (errorMessage err), loading := False\<rparr> else c) (cards s)
    \<and> map response (cards (fetchData_end P cardId out now s)) = map response (cards s)
    \<and> changedCardIds (fetchData_end P cardId out now s) = changedCardIds s)
   \<and> (includes_str msg ''fetch'' \<longrightarrow>
        fetchData_try (Rejected (JsTypeError msg)) = Inl (JsTypeError msg)
      \<and> errorMessage (JsTypeError msg) = lit_red_circle @ '' '' @ lit_connection_failed)
   \<and> (\<not> res_ok r \<longrightarrow>
        (\<exists>e. fetchData_try (Resolved r) = Inl e
            \<and> errorMessage e = lit_red_circle @ '' HTTP '' @ Nat_toString (status r) @ '' '' @ lit_error))
   \<and> (\<not> includes_str msg ''HTTP'' \<and> includes_str msg ''JSON'' \<longrightarrow>
        errorMessage (JsError msg) = lit_red_circle @ '' '' @ lit_bad_format)
   \<and> (\<not> includes_str msg ''HTTP'' \<and> \<not> includes_str msg ''JSON'' \<longrightarrow>
        errorMessage (JsError msg)
          = lit_red_circle @ '' '' @ (if 50 < length msg then take 50 msg @ ''...'' else msg))"
proof -
  have a: "fetchData_try out = Inl err \<longrightarrow>
      cards (fetchData_end P cardId out now s)
        = map (\<lambda>c. if card_id c = cardId
                    then c\<lparr>error := Some (errorMessage err), loading := False\<rparr> else c) (cards s)
    \<and> map response (cards (fetchData_end P cardId out now s)) = map response (cards s)
    \<and> changedCardIds (fetchData_end P cardId out now s) = changedCardIds s"
  proof
    assume h: "fetchData_try out = Inl err"
    have e: "fetchData_end P cardId out now s = fetchData_rejected P cardId err s"
      using h by (simp add: fetchData_end_def)
    have c: "changedCardIds (fetchData_rejected P cardId err s) = changedCardIds s"
      by (simp add: fetchData_rejected_def)
    show "cards (fetchData_end P cardId out now s)
        = map (\<lambda>c. if card_id c = cardId
                    then c\<lparr>error := Some (errorMessage err), loading := False\<rparr> else c) (cards s)
      \<and> map response (cards (fetchData_end P cardId out now s)) = map response (cards s)
      \<and> changedCardIds (fetchData_end P cardId out now s) = changedCardIds s"
      unfolding e rejected_cards using rejected_response c by blast
  qed
  have b: "includes_str msg ''fetch'' \<longrightarrow>
        fetchData_try (Rejected (JsTypeError msg)) = Inl (JsTypeError msg)
      \<and> errorMessage (JsTypeError msg) = lit_red_circle @ '' '' @ lit_connection_failed"
    by (simp add: fetchData_try_def errorMessage_def)
  have c: "\<not> res_ok r \<longrightarrow>
        (\<exists>e. fetchData_try (Resolved r) = Inl e
            \<and> errorMessage e = lit_red_circle @ '' HTTP '' @ Nat_toString (status r) @ '' '' @ lit_error)"
    using http_failure_message by blast
  have d: "\<not> includes_str msg ''HTTP'' \<and> includes_str msg ''JSON'' \<longrightarrow>
        errorMessage (JsError msg) = lit_red_circle @ '' '' @ lit_bad_format"
    by (simp add: errorMessage_def summarize_def)
  have e: "\<not> includes_str msg ''HTTP'' \<and> \<not> includes_str msg ''JSON'' \<longrightarrow>
        errorMessage (JsError msg)
          = lit_red_circle @ '' '' @ (if 50 < length msg then take 50 msg @ ''...'' else msg)"
    by (simp add: errorMessage_def summarize_def substring0_def)
  show ?thesis using a b c d e by blast
qed

lemma Nat_toString_500: "Nat_toString 500 = ''500''"
  by code_simp

theorem fetch_failure_update_witness:
  "fetchData_try http500 = Inl (JsError ''HTTP 500 Internal Server Error: oops'')
   \<and> map error (cards (fetchData_end examplePlatform ''1'' http500 0 exampleState))
        = [Some (lit_red_circle @ '' HTTP 500 '' @ lit_error)]
   \<and> map loading (cards (fetchData_end examplePlatform ''1'' http500 0 exampleState)) = [False]
   \<and> map response (cards (fetchData_end examplePlatform ''1'' http500 0 exampleState))
        = map response (cards exampleState)
   \<and> includes_str ''Failed to fetch'' ''fetch''
   \<and> errorMessage (JsTypeError ''Failed to fetch'') = lit_red_circle @ '' '' @ lit_connection_failed
   \<and> \<not> includes_str ''Unexpected end of JSON input'' ''HTTP''
   \<and> includes_str ''Unexpected end of JSON input'' ''JSON''
   \<and> errorMessage (JsError ''Unexpected end of JSON input'') = lit_red_circle @ '' '' @ lit_bad_format
   \<and> \<not> includes_str ''Load failed'' ''HTTP''
   \<and> \<not> includes_str ''Load failed'' ''JSON''
   \<and> errorMessage (JsError ''Load failed'') = lit_red_circle @ '' Load failed''"
proof -
  let ?r = "Response 500 ''Internal Server Error'' (Some ''text/plain'') ''oops''
              (Inl (JsError ''Unexpected token o in JSON at position 0''))"
  have t: "fetchData_try http500 = Inl (JsError ''HTTP 500 Internal Server Error: oops'')"
    by (simp add: fetchData_try_def http500_def res_ok_def Nat_toString_500)
  have nok: "\<not> res_ok ?r" by (simp add: res_ok_def)
  have i1: "includes_str ''Failed to fetch'' ''fetch''" by (simp add: startsWith_def)
  have i2: "\<not> includes_str ''Unexpected end of JSON input'' ''HTTP''"
    "includes_str ''Unexpected end of JSON input'' ''JSON''"
    by (simp_all add: startsWith_def)
  have i3: "\<not> includes_str ''Load failed'' ''HTTP''" "\<not> includes_str ''Load failed'' ''JSON''"
    by (simp_all add: startsWith_def)
  note th1 = fetch_failure_update [of http500 "JsError ''HTTP 500 Internal Server Error: oops''"
      examplePlatform "''1''" 0 exampleState "''Failed to fetch''" ?r]
  note th2 = fetch_failure_update [of http500 "JsError ''HTTP 500 Internal Server Error: oops''"
      examplePlatform "''1''" 0 exampleState "''Unexpected end of JSON input''" ?r]
  note th3 = fetch_failure_update [of http500 "JsError ''HTTP 500 Internal Server Error: oops''"
      examplePlatform "''1''" 0 exampleState "''Load failed''" ?r]
  have m: "errorMessage (JsError ''HTTP 500 Internal Server Error: oops'')
             = lit_red_circle @ '' HTTP 500 '' @ lit_error"
    using th1 nok t by (simp add: http500_def Nat_toString_500)
  have c: "cards (fetchData_end examplePlatform ''1'' http500 0 exampleState)
        = map (\<lambda>c. if card_id c = ''1''
                    then c\<lparr>error := Some (errorMessage (JsError ''HTTP 500 Internal Server Error: oops'')),
                           loading := False\<rparr> else c) (cards exampleState)"
    using th1 t by blast
  have w1: "map error (cards (fetchData_end examplePlatform ''1'' http500 0 exampleState))
        = [Some (lit_red_circle @ '' HTTP 500 '' @ lit_error)]"
    "map loading (cards (fetchData_end examplePlatform ''1'' http500 0 exampleState)) = [False]"
    unfolding c m by (simp_all add: exampleState_def defaultCards_def)
  have w2: "map response (cards (fetchData_end examplePlatform ''1'' http500 0 exampleState))
        = map response (cards exampleState)"
    using th1 t by blast
  have w3: "errorMessage (JsTypeError ''Failed to fetch'') = lit_red_circle @ '' '' @ lit_connection_failed"
    using th1 i1 by blast
  have w4: "errorMessage (JsError ''Unexpected end of JSON input'') = lit_red_circle @ '' '' @ lit_bad_format"
    using th2 i2 by blast
  have w5: "errorMessage (JsError ''Load failed'') = lit_red_circle @ '' Load failed''"
    using th3 i3 by simp
  show ?thesis using t w1 w2 i1 w3 i2 w4 i3 w5 by blast
qed

text \<open>
  Claim C6, at a failing input. The claim calls the message short, and so does the
  source: the comment on the \<open>catch\<close> block says that it summarises the error message
  briefly. The branch for a text without \<open>HTTP\<close> and \<open>JSON\<close> cuts the text to 50 characters;
  the branch for a text with \<open>HTTP\<close> copies every digit that follows the first \<open>HTTP\<close> and
  a space. A response with status 200 whose \<open>content-type\<close> header is
  \<open>text/plain; v=HTTP\<close> followed by 300 digits makes the \<open>try\<close> block throw the error for
  a response that is not JSON, with the header in its text; the card's \<open>error\<close> is then
  the \<open>HTTP\<close> message with all 300 digits, longer than 300 characters (\<open>loading\<close> is false).
\<close>

theorem fetch_failure_long_message:
  "fetchData_try longHeader
     = Inl (JsError (''JSON'' @ lit_not_json @ '' (Content-Type: text/plain; v=HTTP ''
                      @ replicate 300 (CHR ''1'') @ ''): hello''))
   \<and> map error (cards (fetchData_end examplePlatform ''1'' longHeader 0 exampleState))
        = [Some (lit_red_circle @ '' HTTP '' @ replicate 300 (CHR ''1'') @ '' '' @ lit_error)]
   \<and> map loading (cards (fetchData_end examplePlatform ''1'' longHeader 0 exampleState)) = [False]
   \<and> 300 < length (lit_red_circle @ '' HTTP '' @ replicate 300 (CHR ''1'') @ '' '' @ lit_error)"
proof -
  let ?p = "''JSON'' @ lit_not_json @ '' (Content-Type: text/plain; v=''"
  let ?ds = "replicate 300 (CHR ''1'')"
  let ?msg = "?p @ ''HTTP '' @ ?ds @ ''): hello''"
  have inc: "\<not> includes_str (''text/plain; v=HTTP '' @ ?ds) ''application/json''"
  proof
    assume "includes_str (''text/plain; v=HTTP '' @ ?ds) ''application/json''"
    then have "set ''application/json'' \<subseteq> set (''text/plain; v=HTTP '' @ ?ds)"
      by (rule includes_subset)
    then show False by simp
  qed
  have t: "fetchData_try longHeader = Inl (JsError ?msg)"
    using inc by (simp add: fetchData_try_def longHeader_def res_ok_def substring0_def)
  have np: "CHR ''H'' \<notin> set ?p" by (simp add: lit_not_json_def)
  have s: "summarize ?msg = lit_red_circle @ '' HTTP '' @ ?ds @ '' '' @ lit_error"
    by (rule summarize_http [OF np]) (simp_all add: list_all_iff isDigit_def restOk_def)
  have e: "fetchData_end examplePlatform ''1'' longHeader 0 exampleState
             = fetchData_rejected examplePlatform ''1'' (JsError ?msg) exampleState"
    using t by (simp add: fetchData_end_def)
  have m: "map error (cards (fetchData_end examplePlatform ''1'' longHeader 0 exampleState))
        = [Some (lit_red_circle @ '' HTTP '' @ ?ds @ '' '' @ lit_error)]"
    "map loading (cards (fetchData_end examplePlatform ''1'' longHeader 0 exampleState)) = [False]"
    unfolding e rejected_cards
    using s by (simp_all add: errorMessage_def exampleState_def defaultCards_def)
  show ?thesis using t m by simp
qed


subsection \<open>The success path of \<open>fetchData\<close> and the change detector\<close>

lemma fulfilled_cards:
  "cards (fetchData_fulfilled P cardId data now s) =
     map (\<lambda>c. if card_id c = cardId
               then c\<lparr>response := data, error := None, loading := False,
                      lastUpdated := (if JSON_stringify P (response c) \<noteq> JSON_stringify P data
                                      then Some (ValidDate now) else lastUpdated c)\<rparr>
               else c) (cards s)"
  by (simp add: fetchData_fulfilled_def Let_def responseChanged_def)

lemma fulfilled_changedCardIds:
  "changedCardIds (fetchData_fulfilled P cardId data now s) =
     (if list_ex (\<lambda>c. card_id c = cardId
                     \<and> JSON_stringify P (response c) \<noteq> JSON_stringify P data \<and> autoRefresh c) (cards s)
      then Set_add cardId (changedCardIds s) else changedCardIds s)"
  by (simp add: fetchData_fulfilled_def Let_def responseChanged_def)

lemma example_texts_differ:
  "JSON_stringify examplePlatform exampleAB \<noteq> JSON_stringify examplePlatform exampleBA"
  by (simp add: JSON_stringify_def exampleAB_def exampleBA_def ownProperties_def arrayIndex_def
      isDigit_def quoteJSONString_def escapeChar_def)


lemma watched_card:
  "cards watchedState = [(hd defaultCards)\<lparr>response := exampleAB, autoRefresh := True\<rparr>]"
  "card_id (hd defaultCards) = ''1''" "lastUpdated (hd defaultCards) = None"
  "changedCardIds watchedState = []"
  by (simp_all add: watchedState_def defaultCards_def exampleState_def)



lemma same_response_map:
  "list_all (\<lambda>c. card_id c \<noteq> cardId \<or> response c = data) cs \<Longrightarrow>
   map lastUpdated (map (\<lambda>c. if card_id c = cardId
               then c\<lparr>response := data, error := None, loading := False,
                      lastUpdated := (if JSON_stringify P (response c) \<noteq> JSON_stringify P data
                                      then Some (ValidDate now) else lastUpdated c)\<rparr>
               else c) cs) = map lastUpdated cs"
  by (induction cs) auto

lemma same_response_no_highlight:
  "list_all (\<lambda>c. card_id c \<noteq> cardId \<or> response c = data) cs \<Longrightarrow>
   \<not> list_ex (\<lambda>c. card_id c = cardId
                 \<and> JSON_stringify P (response c) \<noteq> JSON_stringify P data \<and> autoRefresh c) cs"
  by (induction cs) auto

lemma fulfilled_idem_map:
  "list_all (\<lambda>c. card_id c \<noteq> cardId \<or> (response c = data \<and> error c = None \<and> \<not> loading c)) cs \<Longrightarrow>
   map (\<lambda>c. if card_id c = cardId
               then c\<lparr>response := data, error := None, loading := False,
                      lastUpdated := (if JSON_stringify P (response c) \<noteq> JSON_stringify P data
                                      then Some (ValidDate now) else lastUpdated c)\<rparr>
               else c) cs = cs"
  by (induction cs) auto

lemma settled_map:
  "list_all (\<lambda>c. card_id c \<noteq> cardId \<or> (response c = data \<and> error c = None \<and> \<not> loading c))
     (map (\<lambda>c. if card_id c = cardId
               then c\<lparr>response := data, error := None, loading := False, lastUpdated := f c\<rparr>
               else c) cs)"
  by (induction cs) simp_all

lemma fulfilled_settled:
  "list_all (\<lambda>c. card_id c \<noteq> cardId \<or> (response c = data \<and> error c = None \<and> \<not> loading c))
     (cards (fetchData_fulfilled P cardId data now s))"
  unfolding fulfilled_cards by (rule settled_map)

lemma settled_stored:
  "list_all (\<lambda>c. card_id c \<noteq> cardId \<or> (response c = data \<and> error c = None \<and> \<not> loading c)) cs
   \<Longrightarrow> list_all (\<lambda>c. card_id c \<noteq> cardId \<or> response c = data) cs"
  by (induction cs) auto

text \<open>
  Claim C7. A successful fetch whose response is the one the card already stores leaves
  \<open>lastUpdated\<close> (and the changed-card-id set) as it was. In particular, when the same
  response is fed twice, the second update changes no card at all, whatever the time of
  the second update is.
\<close>

theorem same_response_keeps_lastUpdated:
  "(list_all (\<lambda>c. card_id c \<noteq> cardId \<or> response c = data) (cards s) \<longrightarrow>
      map lastUpdated (cards (fetchData_fulfilled P cardId data now s)) = map lastUpdated (cards s)
    \<and> changedCardIds (fetchData_fulfilled P cardId data now s) = changedCardIds s)
   \<and> cards (fetchData_fulfilled P cardId data t2 (fetchData_fulfilled P cardId data t1 s))
       = cards (fetchData_fulfilled P cardId data t1 s)
   \<and> changedCardIds (fetchData_fulfilled P cardId data t2 (fetchData_fulfilled P cardId data t1 s))
       = changedCardIds (fetchData_fulfilled P cardId data t1 s)"
proof -
  let ?s1 = "fetchData_fulfilled P cardId data t1 s"
  have st: "list_all (\<lambda>c. card_id c \<noteq> cardId \<or> (response c = data \<and> error c = None \<and> \<not> loading c))
              (cards ?s1)"
    by (rule fulfilled_settled)
  have a: "cards (fetchData_fulfilled P cardId data t2 ?s1) = cards ?s1"
    unfolding fulfilled_cards [of P cardId data t2 ?s1] using fulfilled_idem_map [OF st] .
  have b: "changedCardIds (fetchData_fulfilled P cardId data t2 ?s1) = changedCardIds ?s1"
    unfolding fulfilled_changedCardIds [of P cardId data t2 ?s1]
    using same_response_no_highlight [OF settled_stored [OF st]] by simp
  have c: "list_all (\<lambda>c. card_id c \<noteq> cardId \<or> response c = data) (cards s) \<longrightarrow>
      map lastUpdated (cards (fetchData_fulfilled P cardId data now s)) = map lastUpdated (cards s)
    \<and> changedCardIds (fetchData_fulfilled P cardId data now s) = changedCardIds s"
  proof
    assume h: "list_all (\<lambda>c. card_id c \<noteq> cardId \<or> response c = data) (cards s)"
    show "map lastUpdated (cards (fetchData_fulfilled P cardId data now s)) = map lastUpdated (cards s)
        \<and> changedCardIds (fetchData_fulfilled P cardId data now s) = changedCardIds s"
      unfolding fulfilled_cards fulfilled_changedCardIds
      using same_response_map [OF h, of P now] same_response_no_highlight [OF h, of P] by simp
  qed
  show ?thesis using a b c by blast
qed

theorem same_response_keeps_lastUpdated_witness:
  "list_all (\<lambda>c. card_id c \<noteq> ''1'' \<or> response c = exampleAB) (cards watchedState)
   \<and> map lastUpdated (cards (fetchData_fulfilled examplePlatform ''1'' exampleAB 7 watchedState))
       = map lastUpdated (cards watchedState)
   \<and> map lastUpdated (cards (fetchData_fulfilled examplePlatform ''1'' exampleBA 9
         (fetchData_fulfilled examplePlatform ''1'' exampleBA 8 watchedState)))
       = [Some (ValidDate 8)]"
proof -
  have h: "list_all (\<lambda>c. card_id c \<noteq> ''1'' \<or> response c = exampleAB) (cards watchedState)"
    by (simp add: watched_card)
  have f: "map lastUpdated (cards (fetchData_fulfilled examplePlatform ''1'' exampleBA 8 watchedState))
             = [Some (ValidDate 8)]"
    using example_texts_differ by (simp add: fulfilled_cards watched_card)
  show ?thesis
    using h f same_response_keeps_lastUpdated [of "''1''" exampleAB watchedState examplePlatform 7]
      same_response_keeps_lastUpdated [of "''1''" exampleBA watchedState examplePlatform 7 9 8]
    by simp
qed



lemma handleCardClick_fields:
  "changedCardIds (handleCardClick P cardName cardId s) = Set_delete cardId (changedCardIds s)"
  "cards (handleCardClick P cardName cardId s) = cards s"
proof -
  have "cardId \<notin> set (changedCardIds s) \<Longrightarrow> filter (\<lambda>y. y \<noteq> cardId) (changedCardIds s) = changedCardIds s"
    by (induction "changedCardIds s") (auto simp: filter_id_conv)
  then show "changedCardIds (handleCardClick P cardName cardId s) = Set_delete cardId (changedCardIds s)"
    by (simp add: handleCardClick_def Set_delete_def saveChangedCardIds_def)
  show "cards (handleCardClick P cardName cardId s) = cards s"
    by (simp add: handleCardClick_def saveChangedCardIds_def)
qed





subsection \<open>Card ids\<close>

text \<open>
  Claim C2, as stated: the ids of the registry are pairwise distinct in every reachable
  state, and \<open>addCard\<close> assigns an id distinct from all existing ones. The id is the
  decimal text of the clock reading and is compared with nothing: two cards added at the
  same reading of the clock have the same id.
\<close>

theorem addCard_same_clock_counterexample:
  "distinct (map card_id (cards ordersForm))
   \<and> fst (addCard examplePlatform 1700000000000 ordersForm) = None
   \<and> fst (addCard examplePlatform 1700000000000
             (billingForm (snd (addCard examplePlatform 1700000000000 ordersForm)))) = None
   \<and> \<not> distinct (map card_id (cards (snd (addCard examplePlatform 1700000000000
             (billingForm (snd (addCard examplePlatform 1700000000000 ordersForm)))))))"
  by (simp add: addCard_def Let_def billingForm_def ordersForm_def exampleState_def
      defaultCards_def blank_def trim_def isWhiteSpace_def)

lemma map_card_id_cong:
  "(\<And>c. card_id (g c) = card_id c) \<Longrightarrow> map card_id (map g cs) = map card_id cs"
  by (induction cs) simp_all

lemma ids_toggleAutoRefresh:
  "map card_id (cards (toggleAutoRefresh P cardId s)) = map card_id (cards s)"
  by (simp add: toggleAutoRefresh_def map_card_id_cong)

lemma ids_fetchData_begin:
  "map card_id (cards (snd (fetchData_begin P cardId s))) = map card_id (cards s)"
  by (simp add: fetchData_begin_def map_card_id_cong)

lemma ids_fetchData_fulfilled:
  "map card_id (cards (fetchData_fulfilled P cardId data now s)) = map card_id (cards s)"
  unfolding fulfilled_cards by (simp add: map_card_id_cong)

lemma ids_fetchData_rejected:
  "map card_id (cards (fetchData_rejected P cardId err s)) = map card_id (cards s)"
  unfolding rejected_cards by (simp add: map_card_id_cong)

lemma ids_fetchData_end:
  "map card_id (cards (fetchData_end P cardId out now s)) = map card_id (cards s)"
  by (simp add: fetchData_end_def ids_fetchData_fulfilled ids_fetchData_rejected split: sum.splits)

lemma ids_saveEditCard:
  "map card_id (cards (snd (saveEditCard P s))) = map card_id (cards s)"
  by (simp add: saveEditCard_def cancelEdit_def map_card_id_cong)

lemma ids_deleteCard:
  "distinct (map card_id (cards s)) \<Longrightarrow> distinct (map card_id (cards (deleteCard P confirmed cardId s)))"
  by (simp add: deleteCard_def distinct_map_filter)

lemma ids_addCard:
  "map card_id (cards (snd (addCard P now s))) =
     (if blank (newCardName s) \<or> blank (newCardUrl s) then map card_id (cards s)
      else map card_id (cards s) @ [Int_toString now])"
  by (simp add: addCard_def Let_def)

lemma other_clock_fresh:
  "list_all (\<lambda>c. \<exists>t. t \<noteq> now \<and> card_id c = Int_toString t) cs \<Longrightarrow> Int_toString now \<notin> card_id ` set cs"
  using Int_toString_inj by (induction cs) auto

text \<open>
  Claim C2, amended. \<open>addCard\<close> gives the new card the decimal text of the clock reading
  \<open>Date.now()\<close> as its id, whatever the ids in the registry are. When the ids are pairwise
  distinct and no card has that text as its id, they are pairwise distinct after
  \<open>addCard\<close>; no card has that text as its id when every id in the registry is the text
  of another clock reading. Every other handler keeps pairwise distinct ids pairwise
  distinct.
\<close>

theorem ids_stay_distinct:
  "(\<not> list_all isWhiteSpace (newCardName s) \<and> \<not> list_all isWhiteSpace (newCardUrl s)
      \<longrightarrow> map card_id (cards (snd (addCard P now s))) = map card_id (cards s) @ [Int_toString now])
   \<and> (distinct (map card_id (cards s)) \<and> Int_toString now \<notin> card_id ` set (cards s)
      \<longrightarrow> distinct (map card_id (cards (snd (addCard P now s)))))
   \<and> (list_all (\<lambda>c. \<exists>t. t \<noteq> now \<and> card_id c = Int_toString t) (cards s)
      \<longrightarrow> Int_toString now \<notin> card_id ` set (cards s))
   \<and> (distinct (map card_id (cards s))
      \<longrightarrow> distinct (map card_id (cards (toggleAutoRefresh P cardId s)))
        \<and> distinct (map card_id (cards (snd (saveEditCard P s))))
        \<and> distinct (map card_id (cards (deleteCard P confirmed cardId s)))
        \<and> distinct (map card_id (cards (snd (fetchData_begin P cardId s))))
        \<and> distinct (map card_id (cards (fetchData_end P cardId out now s)))
        \<and> distinct (map card_id (cards (handleCardClick P cardName cardId s))))"
proof -
  have a: "\<not> list_all isWhiteSpace (newCardName s) \<and> \<not> list_all isWhiteSpace (newCardUrl s)
      \<longrightarrow> map card_id (cards (snd (addCard P now s))) = map card_id (cards s) @ [Int_toString now]"
    by (simp add: ids_addCard blank_iff)
  have b: "distinct (map card_id (cards s)) \<and> Int_toString now \<notin> card_id ` set (cards s)
      \<longrightarrow> distinct (map card_id (cards (snd (addCard P now s))))"
    by (simp add: ids_addCard)
  have c: "list_all (\<lambda>c. \<exists>t. t \<noteq> now \<and> card_id c = Int_toString t) (cards s)
      \<longrightarrow> Int_toString now \<notin> card_id ` set (cards s)"
    using other_clock_fresh by blast
  have d: "distinct (map card_id (cards s))
      \<longrightarrow> distinct (map card_id (cards (toggleAutoRefresh P cardId s)))
        \<and> distinct (map card_id (cards (snd (saveEditCard P s))))
        \<and> distinct (map card_id (cards (deleteCard P confirmed cardId s)))
        \<and> distinct (map card_id (cards (snd (fetchData_begin P cardId s))))
        \<and> distinct (map card_id (cards (fetchData_end P cardId out now s)))
        \<and> distinct (map card_id (cards (handleCardClick P cardName cardId s)))"
    using ids_deleteCard [of s P confirmed cardId]
    by (simp add: ids_toggleAutoRefresh ids_saveEditCard ids_fetchData_begin ids_fetchData_end
        handleCardClick_fields)
  show ?thesis using a b c d by blast
qed

theorem ids_stay_distinct_witness:
  "\<not> list_all isWhiteSpace (newCardName ordersForm)
   \<and> \<not> list_all isWhiteSpace (newCardUrl ordersForm)
   \<and> distinct (map card_id (cards ordersForm))
   \<and> list_all (\<lambda>c. \<exists>t. t \<noteq> 1700000000000 \<and> card_id c = Int_toString t) (cards ordersForm)
   \<and> Int_toString 1700000000000 \<notin> card_id ` set (cards ordersForm)
   \<and> map card_id (cards (snd (addCard examplePlatform 1700000000000 ordersForm)))
        = map card_id (cards ordersForm) @ [Int_toString 1700000000000]
   \<and> distinct (map card_id (cards (snd (addCard examplePlatform 1700000000000 ordersForm))))
   \<and> distinct (map card_id (cards (deleteCard examplePlatform True ''1'' ordersForm)))"
proof -
  have one: "Int_toString 1 = ''1''" by code_simp
  have a: "\<not> list_all isWhiteSpace (newCardName ordersForm)"
    "\<not> list_all isWhiteSpace (newCardUrl ordersForm)"
    "distinct (map card_id (cards ordersForm))"
    by (simp_all add: ordersForm_def exampleState_def defaultCards_def isWhiteSpace_def)
  have "(1::int) \<noteq> 1700000000000 \<and> ''1'' = Int_toString 1" using one by simp
  then have "\<exists>t. t \<noteq> 1700000000000 \<and> ''1'' = Int_toString t" by blast
  then have b: "list_all (\<lambda>c. \<exists>t. t \<noteq> 1700000000000 \<and> card_id c = Int_toString t) (cards ordersForm)"
    by (simp add: ordersForm_def exampleState_def defaultCards_def)
  note t = ids_stay_distinct [of ordersForm examplePlatform 1700000000000 "''1''" True
      "Rejected NotAnError" "''users''"]
  have c: "Int_toString 1700000000000 \<notin> card_id ` set (cards ordersForm)"
    using t b by blast
  have d: "map card_id (cards (snd (addCard examplePlatform 1700000000000 ordersForm)))
        = map card_id (cards ordersForm) @ [Int_toString 1700000000000]"
    using t a by blast
  have e: "distinct (map card_id (cards (snd (addCard examplePlatform 1700000000000 ordersForm))))"
    using t a c by blast
  have f: "distinct (map card_id (cards (deleteCard examplePlatform True ''1'' ordersForm)))"
    using t a by blast
  show ?thesis using a b c d e f by blast
qed


subsection \<open>Saving and reloading the cards\<close>









lemma restored_not_loading:
  "those (map (restoreCard P) xs) = Some cs \<Longrightarrow> list_all (\<lambda>c. \<not> loading c) cs"
proof (induction xs arbitrary: cs)
  case Nil
  then show ?case by simp
next
  case (Cons x xs)
  from Cons.prems obtain c cs' where c: "restoreCard P x = Some c"
    "those (map (restoreCard P) xs) = Some cs'" "cs = c # cs'"
    by (auto split: option.splits)
  have "\<not> loading c" using c(1) by (auto simp: restoreCard_def split: option.splits)
  then show ?case using Cons.IH [OF c(2)] c(3) by simp
qed

lemma load_absent: "store STORAGE_KEY = None \<Longrightarrow> loadCardsFromStorage P store = Some defaultCards"
  by (simp add: loadCardsFromStorage_def)

lemma load_unparsable:
  "store STORAGE_KEY = Some stored \<Longrightarrow> JSON_parse P stored = None
     \<Longrightarrow> loadCardsFromStorage P store = Some defaultCards"
  by (simp add: loadCardsFromStorage_def)

lemma load_not_loading:
  "loadCardsFromStorage P store = Some cs \<Longrightarrow> list_all (\<lambda>c. \<not> loading c) cs"
  using restored_not_loading [of P _ cs]
  by (auto simp: loadCardsFromStorage_def defaultCards_def split: option.splits if_splits json.splits)

text \<open>
  Loading the cards, for every store. When the store has no entry for the cards, or its entry does not parse,
  \<open>loadCardsFromStorage\<close> gives the single built-in default card; and whatever the store
  holds, every card that \<open>loadCardsFromStorage\<close> gives has \<open>loading\<close> false.
\<close>

theorem initialize_defaults_and_loading:
  "(store STORAGE_KEY = None \<longrightarrow> loadCardsFromStorage P store = Some defaultCards)
   \<and> (store STORAGE_KEY = Some stored \<and> JSON_parse P stored = None
        \<longrightarrow> loadCardsFromStorage P store = Some defaultCards)
   \<and> length defaultCards = 1
   \<and> (loadCardsFromStorage P store = Some cs \<longrightarrow> list_all (\<lambda>c. \<not> loading c) cs)"
proof -
  have d: "length defaultCards = 1" by (simp add: defaultCards_def)
  show ?thesis
    using d load_absent [of store P] load_unparsable [of store stored P] load_not_loading [of P store cs]
    by blast
qed

theorem initialize_defaults_and_loading_witness:
  "Map.empty STORAGE_KEY = (None :: string option)
   \<and> loadCardsFromStorage examplePlatform Map.empty = Some defaultCards
   \<and> [STORAGE_KEY \<mapsto> ''{oops''] STORAGE_KEY = Some ''{oops''
   \<and> JSON_parse examplePlatform ''{oops'' = None
   \<and> loadCardsFromStorage examplePlatform [STORAGE_KEY \<mapsto> ''{oops''] = Some defaultCards
   \<and> list_all (\<lambda>c. \<not> loading c) defaultCards"
proof -
  have e: "Map.empty STORAGE_KEY = (None :: string option)" by simp
  have u: "[STORAGE_KEY \<mapsto> ''{oops''] STORAGE_KEY = Some ''{oops''"
    "JSON_parse examplePlatform ''{oops'' = None"
    by (simp_all add: examplePlatform_def)
  have w2: "loadCardsFromStorage examplePlatform Map.empty = Some defaultCards"
    using e initialize_defaults_and_loading [of Map.empty examplePlatform] by blast
  have w3: "loadCardsFromStorage examplePlatform [STORAGE_KEY \<mapsto> ''{oops''] = Some defaultCards"
    using u initialize_defaults_and_loading [of "[STORAGE_KEY \<mapsto> ''{oops'']" examplePlatform "''{oops''"]
    by blast
  have w4: "list_all (\<lambda>c. \<not> loading c) defaultCards"
    using w2 initialize_defaults_and_loading [of Map.empty examplePlatform _ defaultCards] by blast
  show ?thesis using e u w2 w3 w4 by blast
qed

end
